theory Spec2Isabelle
  imports Complex_Main "HOL-Library.Log_Nat" "HOL-Library.Sublist"
begin

section \<open>JavaScript values read from the remote config store\<close>

text \<open>
  The values that \<^verbatim>\<open>getAll\<close> of the edge-config client hands back are decoded JSON:
  strings, numbers, booleans, null, objects and arrays; indexing the returned object at a
  key it does not hold gives \<^verbatim>\<open>undefined\<close>. A JavaScript number is a double: NaN, an
  infinity, or a finite value, which is a rational.
\<close>

datatype jsnum = NaN | PosInf | NegInf | Finite rat

datatype jsval =
    JUndefined
  | JNull
  | JBool bool
  | JNum jsnum
  | JStr string
  | JObj "(string \<times> jsval) list"
  | JArr "jsval list"

text \<open>ToBoolean: what \<^verbatim>\<open>!v\<close> tests.\<close>

fun truthy :: "jsval \<Rightarrow> bool" where
  "truthy JUndefined = False"
| "truthy JNull = False"
| "truthy (JBool b) = b"
| "truthy (JNum NaN) = False"
| "truthy (JNum (Finite q)) = (q \<noteq> 0)"
| "truthy (JNum PosInf) = True"
| "truthy (JNum NegInf) = True"
| "truthy (JStr s) = (s \<noteq> [])"
| "truthy (JObj kvs) = True"
| "truthy (JArr vs) = True"

text \<open>
  A \<^verbatim>\<open>Date\<close> object holds a time value: an integral number of milliseconds, or NaN
  (an invalid date). \<^verbatim>\<open>getTime\<close> reads it and \<^verbatim>\<open>isNaN\<close> tests it.
\<close>

datatype date = Invalid_Date | Date_ms int

fun getTime :: "date \<Rightarrow> jsnum" where
  "getTime Invalid_Date = NaN"
| "getTime (Date_ms t) = Finite (of_int t)"

fun isNaN :: "jsnum \<Rightarrow> bool" where
  "isNaN NaN = True"
| "isNaN PosInf = False"
| "isNaN NegInf = False"
| "isNaN (Finite q) = False"

text \<open>
  TimeClip of the language standard: a time value that is not finite, or beyond
  8.64e15 ms in magnitude, is NaN; any other is truncated towards zero.
\<close>

fun timeClip :: "jsnum \<Rightarrow> date" where
  "timeClip NaN = Invalid_Date"
| "timeClip PosInf = Invalid_Date"
| "timeClip NegInf = Invalid_Date"
| "timeClip (Finite q) =
     (if \<bar>q\<bar> > 8640000000000000 then Invalid_Date
      else Date_ms (if q < 0 then \<lceil>q\<rceil> else \<lfloor>q\<rfloor>))"

text \<open>
  Two parts of \<^verbatim>\<open>new Date(value)\<close> are left to the JavaScript engine and are
  parameters of the model: \<^verbatim>\<open>Date.parse\<close>, whose result on a string that is not in
  the standard's date-time format is implementation-defined, and the string an array is
  converted to.
\<close>

record engine =
  date_parse :: "string \<Rightarrow> jsnum"
  array_toString :: "jsval list \<Rightarrow> string"

text \<open>
  \<^verbatim>\<open>new Date(value)\<close> with one argument: the value is made primitive (an object or an
  array becomes a string), a string is parsed, and anything else is converted by
  ToNumber: \<^verbatim>\<open>undefined\<close> to NaN, \<^verbatim>\<open>null\<close> to 0, \<^verbatim>\<open>true\<close> to 1, \<^verbatim>\<open>false\<close> to 0.
\<close>

fun newDate :: "engine \<Rightarrow> jsval \<Rightarrow> date" where
  "newDate eng JUndefined = timeClip NaN"
| "newDate eng JNull = timeClip (Finite 0)"
| "newDate eng (JBool b) = timeClip (Finite (if b then 1 else 0))"
| "newDate eng (JNum n) = timeClip n"
| "newDate eng (JStr s) = timeClip (date_parse eng s)"
| "newDate eng (JObj kvs) = timeClip (date_parse eng ''[object Object]'')"
| "newDate eng (JArr vs) = timeClip (date_parse eng (array_toString eng vs))"

section \<open>The maintenance-notice flag\<close>

text \<open>The tagged union \<^verbatim>\<open>IMaintenanceNotice\<close>.\<close>

datatype IMaintenanceNotice = Disabled | Enabled (startTime: date) (endTime: date)

text \<open>
  What \<^verbatim>\<open>decide\<close> reads from outside: the environment variable
  \<^verbatim>\<open>process.env.EDGE_CONFIG\<close> (unset, or a string) and the outcome of the one
  \<^verbatim>\<open>getAll\<close> call for the keys it is given: the call throws, or it returns the
  items the store holds for those keys.
\<close>

datatype store_reply = Throws string | Items "string \<rightharpoonup> jsval"

record ambient =
  EDGE_CONFIG :: "string option"
  getAll :: "string list \<Rightarrow> store_reply"

text \<open>What can be thrown inside the \<^verbatim>\<open>try\<close> block.\<close>

datatype exn =
    Store_Failure string
  | Invalid_Start_Or_End jsval jsval

definition start_key :: string where
  "start_key = ''maintenance-notice_start-time''"

definition end_key :: string where
  "end_key = ''maintenance-notice_end-time''"

definition enabled_key :: string where
  "enabled_key = ''maintenance-notice_enabled''"

text \<open>\<^verbatim>\<open>flags[key]\<close>: \<^verbatim>\<open>undefined\<close> for a key the object does not hold.\<close>

definition flag_at :: "(string \<rightharpoonup> jsval) \<Rightarrow> string \<Rightarrow> jsval" where
  "flag_at flags k = (case flags k of None \<Rightarrow> JUndefined | Some v \<Rightarrow> v)"

text \<open>\<^verbatim>\<open>!process.env.EDGE_CONFIG\<close>: true when the variable is unset or empty.\<close>

definition env_unset :: "string option \<Rightarrow> bool" where
  "env_unset v = (case v of None \<Rightarrow> True | Some s \<Rightarrow> s = [])"

text \<open>The body of the \<^verbatim>\<open>try\<close> block of \<^verbatim>\<open>decide\<close>: \<open>Inl\<close> is a throw.\<close>

definition decide_try :: "engine \<Rightarrow> ambient \<Rightarrow> exn + IMaintenanceNotice" where
  "decide_try eng amb =
     (if env_unset (EDGE_CONFIG amb) then Inr Disabled
      else
        (case getAll amb [start_key, end_key, enabled_key] of
           Throws msg \<Rightarrow> Inl (Store_Failure msg)
         | Items flags \<Rightarrow>
             if \<not> truthy (flag_at flags enabled_key) then Inr Disabled
             else
               (let startTime = newDate eng (flag_at flags start_key);
                    endTime = newDate eng (flag_at flags end_key)
                in if isNaN (getTime startTime) \<or> isNaN (getTime endTime)
                   then Inl (Invalid_Start_Or_End (flag_at flags start_key)
                               (flag_at flags end_key))
                   else Inr (Enabled startTime endTime))))"

text \<open>
  \<^verbatim>\<open>decide\<close> itself: the \<^verbatim>\<open>catch\<close> clause logs the cause and returns the disabled
  variant. The result is what the caller of the asynchronous function sees: \<open>Inl\<close> would
  be a rejected promise.
\<close>

definition decide :: "engine \<Rightarrow> ambient \<Rightarrow> exn + IMaintenanceNotice" where
  "decide eng amb =
     (case decide_try eng amb of
        Inl cause \<Rightarrow> Inr Disabled
      | Inr notice \<Rightarrow> Inr notice)"

text \<open>A timestamp is well formed when the date made from it has a time value.\<close>

definition well_formed :: "date \<Rightarrow> bool" where
  "well_formed d = (\<not> isNaN (getTime d))"

text \<open>
  The words of the specification, apart from the code. A value is a well-formed
  timestamp when it is a string that \<^verbatim>\<open>Date.parse\<close> reads as a time, or a number that
  is a time value; \<^verbatim>\<open>null\<close>, a boolean, an object or an array is not a timestamp. A
  start or end time is malformed or missing when the store holds nothing at its key, or
  holds a value that is not a well-formed timestamp.
\<close>

definition well_formed_timestamp :: "engine \<Rightarrow> jsval \<Rightarrow> bool" where
  "well_formed_timestamp eng v =
     (case v of
        JStr s \<Rightarrow> timeClip (date_parse eng s) \<noteq> Invalid_Date
      | JNum n \<Rightarrow> timeClip n \<noteq> Invalid_Date
      | JUndefined \<Rightarrow> False
      | JNull \<Rightarrow> False
      | JBool b \<Rightarrow> False
      | JObj kvs \<Rightarrow> False
      | JArr vs \<Rightarrow> False)"

definition malformed_or_missing :: "engine \<Rightarrow> (string \<rightharpoonup> jsval) \<Rightarrow> string \<Rightarrow> bool" where
  "malformed_or_missing eng flags k =
     (case flags k of None \<Rightarrow> True | Some v \<Rightarrow> \<not> well_formed_timestamp eng v)"

text \<open>The store holds nothing at the key, or holds a string or a number there.\<close>

definition absent_or_string_or_number :: "(string \<rightharpoonup> jsval) \<Rightarrow> string \<Rightarrow> bool" where
  "absent_or_string_or_number flags k =
     (case flags k of
        None \<Rightarrow> True
      | Some v \<Rightarrow>
          (case v of
             JStr s \<Rightarrow> True
           | JNum n \<Rightarrow> True
           | JUndefined \<Rightarrow> False
           | JNull \<Rightarrow> False
           | JBool b \<Rightarrow> False
           | JObj kvs \<Rightarrow> False
           | JArr vs \<Rightarrow> False))"

section \<open>The session context: the auth-change handler\<close>

text \<open>
  Of the auth client's \<^verbatim>\<open>User\<close> and \<^verbatim>\<open>Session\<close> the handler reads the user's id and
  creation timestamp and the session's user and expiry. The handler tests
  \<^verbatim>\<open>newSession?.user\<close>, so the user of a session is optional here.
\<close>

record User =
  user_id :: string
  created_at :: string

record Session =
  session_user :: "User option"
  expires_at :: "nat option"

datatype AuthChangeEvent =
    SIGNED_IN
  | SIGNED_OUT
  | TOKEN_REFRESHED
  | MFA_CHALLENGE_VERIFIED
  | OTHER_EVENT string

text \<open>
  The provider's state (\<^verbatim>\<open>session\<close>, \<^verbatim>\<open>user\<close>, \<^verbatim>\<open>isLoading\<close>) and the calls made to
  the provisioning routine \<^verbatim>\<open>checkAndInstallSunaAgent\<close>, in order, each with its two
  arguments.
\<close>

record auth_state =
  session :: "Session option"
  user :: "User option"
  isLoading :: bool
  install_calls :: "(string \<times> string) list"

text \<open>\<^verbatim>\<open>newSession?.user ?? null\<close>.\<close>

definition user_of :: "Session option \<Rightarrow> User option" where
  "user_of newSession = (case newSession of None \<Rightarrow> None | Some s \<Rightarrow> session_user s)"

definition checkAndInstallSunaAgent :: "string \<Rightarrow> string \<Rightarrow> auth_state \<Rightarrow> auth_state" where
  "checkAndInstallSunaAgent uid created st =
     st\<lparr>install_calls := install_calls st @ [(uid, created)]\<rparr>"

text \<open>
  The callback given to \<^verbatim>\<open>onAuthStateChange\<close>. It reads \<^verbatim>\<open>isLoading\<close> from the
  closure of the render that subscribed, so that value is an argument. The provisioning
  call is the last effect of its branch, so whether it resolves or rejects does not
  change the state the handler leaves.
\<close>

definition onAuthStateChange ::
  "bool \<Rightarrow> AuthChangeEvent \<Rightarrow> Session option \<Rightarrow> auth_state \<Rightarrow> auth_state" where
  "onAuthStateChange isLoading_seen event newSession st =
     (let st1 = st\<lparr>session := newSession, user := user_of newSession\<rparr>;
          st2 = (if isLoading_seen then st1\<lparr>isLoading := False\<rparr> else st1)
      in case event of
           SIGNED_IN \<Rightarrow>
             (case user_of newSession of
                Some u \<Rightarrow> checkAndInstallSunaAgent (user_id u) (created_at u) st2
              | None \<Rightarrow> st2)
         | SIGNED_OUT \<Rightarrow> st2
         | TOKEN_REFRESHED \<Rightarrow> st2
         | MFA_CHALLENGE_VERIFIED \<Rightarrow> st2
         | OTHER_EVENT e \<Rightarrow> st2)"

section \<open>The model-manager panel\<close>

record OllamaModel =
  model_id :: string
  name :: string
  display_name :: string
  model_size :: nat
  modified_at :: string
  digest :: string

record ServerStatus =
  status :: string
  accessible :: bool
  base_url :: string

text \<open>
  A request as \<^verbatim>\<open>fetch\<close> is given it: the method, the path, and the \<^verbatim>\<open>model_name\<close> of
  the JSON body when there is one.
\<close>

datatype http_method = GET | POST | DELETE

record request =
  req_method :: http_method
  path :: string
  body_model_name :: "string option"

text \<open>
  What a \<^verbatim>\<open>fetch\<close> comes to: the promise rejects (a transport failure), or there is a
  response with its \<^verbatim>\<open>ok\<close> flag and the outcome of \<^verbatim>\<open>response.json()\<close>, which is
  \<open>None\<close> when the body does not decode. Bodies are typed as the interfaces of the
  component declare them.
\<close>

datatype 'a response = Network_Error | Response (ok: bool) (json: "'a option")

datatype callback_outcome = Callback_Returns | Callback_Throws

text \<open>
  The world outside the component during one operation: the answer of each endpoint
  and the optional \<^verbatim>\<open>onModelAdded\<close> prop. No operation calls an endpoint twice, so one
  answer for each endpoint loses no behaviour.
\<close>

record backend =
  status_endpoint :: "ServerStatus response"
  models_endpoint :: "OllamaModel list response"
  pull_endpoint :: "string \<Rightarrow> string response"
  delete_endpoint :: "string \<Rightarrow> string response"
  onModelAdded :: "(string \<Rightarrow> callback_outcome) option"

text \<open>
  The component's state, and its effects on the outside in order: the requests issued,
  the ids passed to \<^verbatim>\<open>onModelAdded\<close>, and the messages of \<^verbatim>\<open>console.error\<close>.
\<close>

record manager =
  models :: "OllamaModel list"
  serverStatus :: "ServerStatus option"
  loading :: bool
  isOpen :: bool
  newModelName :: string
  pullingModel :: "string option"
  deletingModel :: "string option"
  requests :: "request list"
  notified :: "string list"
  console :: "string list"

definition initial_manager :: manager where
  "initial_manager =
     \<lparr>models = [], serverStatus = None, loading = False, isOpen = False,
      newModelName = [], pullingModel = None, deletingModel = None,
      requests = [], notified = [], console = []\<rparr>"

definition issue :: "request \<Rightarrow> manager \<Rightarrow> manager" where
  "issue r st = st\<lparr>requests := requests st @ [r]\<rparr>"

definition console_error :: "string \<Rightarrow> manager \<Rightarrow> manager" where
  "console_error msg st = st\<lparr>console := console st @ [msg]\<rparr>"

definition status_request :: request where
  "status_request = \<lparr>req_method = GET, path = ''/api/ollama/status'', body_model_name = None\<rparr>"

definition models_request :: request where
  "models_request = \<lparr>req_method = GET, path = ''/api/ollama/models'', body_model_name = None\<rparr>"

definition pull_request :: "string \<Rightarrow> request" where
  "pull_request modelName =
     \<lparr>req_method = POST, path = ''/api/ollama/models/pull'', body_model_name = Some modelName\<rparr>"

definition delete_request :: "string \<Rightarrow> request" where
  "delete_request modelName =
     \<lparr>req_method = DELETE, path = ''/api/ollama/models/delete'',
      body_model_name = Some modelName\<rparr>"

text \<open>How a \<^verbatim>\<open>try\<close> block ends: it runs to its end, it returns a value, or it throws.\<close>

datatype 'a completion = Completes | Returned 'a | Thrown

subsection \<open>fetchServerStatus\<close>

definition fetchServerStatus_try :: "backend \<Rightarrow> manager \<Rightarrow> bool completion \<times> manager" where
  "fetchServerStatus_try be st =
     (let st1 = issue status_request st
      in case status_endpoint be of
           Network_Error \<Rightarrow> (Thrown, st1)
         | Response is_ok js \<Rightarrow>
             if is_ok then
               (case js of
                  None \<Rightarrow> (Thrown, st1)
                | Some s \<Rightarrow> (Returned (accessible s), st1\<lparr>serverStatus := Some s\<rparr>))
             else (Completes, st1))"

definition fetchServerStatus :: "backend \<Rightarrow> manager \<Rightarrow> bool \<times> manager" where
  "fetchServerStatus be st =
     (case fetchServerStatus_try be st of
        (Returned a, st1) \<Rightarrow> (a, st1)
      | (Completes, st1) \<Rightarrow> (False, st1)
      | (Thrown, st1) \<Rightarrow> (False, console_error ''Failed to fetch server status:'' st1))"

subsection \<open>fetchModels\<close>

definition fetchModels_try :: "backend \<Rightarrow> manager \<Rightarrow> unit completion \<times> manager" where
  "fetchModels_try be st =
     (case fetchServerStatus be st of
        (is_accessible, st1) \<Rightarrow>
          if \<not> is_accessible then (Returned (), st1\<lparr>models := []\<rparr>)
          else
            (let st2 = issue models_request st1
             in case models_endpoint be of
                  Network_Error \<Rightarrow> (Thrown, st2)
                | Response is_ok js \<Rightarrow>
                    if is_ok then
                      (case js of
                         None \<Rightarrow> (Thrown, st2)
                       | Some modelList \<Rightarrow> (Completes, st2\<lparr>models := modelList\<rparr>))
                    else (Completes, (console_error ''Failed to fetch models'' st2)
                                       \<lparr>models := []\<rparr>)))"

definition fetchModels :: "backend \<Rightarrow> manager \<Rightarrow> manager" where
  "fetchModels be st =
     (let st0 = st\<lparr>loading := True\<rparr>;
          st2 = (case fetchModels_try be st0 of
                   (Thrown, st1) \<Rightarrow> (console_error ''Error fetching models:'' st1)\<lparr>models := []\<rparr>
                 | (Returned u, st1) \<Rightarrow> st1
                 | (Completes, st1) \<Rightarrow> st1)
      in st2\<lparr>loading := False\<rparr>)"

subsection \<open>pullModel and deleteModel\<close>

definition pullModel_try :: "backend \<Rightarrow> string \<Rightarrow> manager \<Rightarrow> unit completion \<times> manager" where
  "pullModel_try be modelName st =
     (let st1 = issue (pull_request modelName) st
      in case pull_endpoint be modelName of
           Network_Error \<Rightarrow> (Thrown, st1)
         | Response is_ok js \<Rightarrow>
             if is_ok then
               (let st2 = fetchModels be st1
                in case onModelAdded be of
                     None \<Rightarrow> (Completes, st2)
                   | Some cb \<Rightarrow>
                       (let st3 = st2\<lparr>notified := notified st2 @ [''ollama/'' @ modelName]\<rparr>
                        in case cb (''ollama/'' @ modelName) of
                             Callback_Returns \<Rightarrow> (Completes, st3)
                           | Callback_Throws \<Rightarrow> (Thrown, st3)))
             else
               (case js of
                  None \<Rightarrow> (Thrown, st1)
                | Some err \<Rightarrow> (Completes, console_error ''Failed to pull model:'' st1)))"

definition pullModel :: "backend \<Rightarrow> string \<Rightarrow> manager \<Rightarrow> manager" where
  "pullModel be modelName st =
     (let st0 = st\<lparr>pullingModel := Some modelName\<rparr>;
          st2 = (case pullModel_try be modelName st0 of
                   (Thrown, st1) \<Rightarrow> console_error ''Error pulling model:'' st1
                 | (Returned u, st1) \<Rightarrow> st1
                 | (Completes, st1) \<Rightarrow> st1)
      in st2\<lparr>pullingModel := None\<rparr>)"

definition deleteModel_try :: "backend \<Rightarrow> string \<Rightarrow> manager \<Rightarrow> unit completion \<times> manager" where
  "deleteModel_try be modelName st =
     (let st1 = issue (delete_request modelName) st
      in case delete_endpoint be modelName of
           Network_Error \<Rightarrow> (Thrown, st1)
         | Response is_ok js \<Rightarrow>
             if is_ok then (Completes, fetchModels be st1)
             else
               (case js of
                  None \<Rightarrow> (Thrown, st1)
                | Some err \<Rightarrow> (Completes, console_error ''Failed to delete model:'' st1)))"

definition deleteModel :: "backend \<Rightarrow> string \<Rightarrow> manager \<Rightarrow> manager" where
  "deleteModel be modelName st =
     (let st0 = st\<lparr>deletingModel := Some modelName\<rparr>;
          st2 = (case deleteModel_try be modelName st0 of
                   (Thrown, st1) \<Rightarrow> console_error ''Error deleting model:'' st1
                 | (Returned u, st1) \<Rightarrow> st1
                 | (Completes, st1) \<Rightarrow> st1)
      in st2\<lparr>deletingModel := None\<rparr>)"

subsection \<open>The effect on the visibility flag\<close>

text \<open>
  The body of \<^verbatim>\<open>useEffect(() => { if (isOpen) fetchModels(); }, [isOpen])\<close>, and the
  state setter that the dialog is given as its \<^verbatim>\<open>onOpenChange\<close>.
\<close>

definition open_effect :: "backend \<Rightarrow> manager \<Rightarrow> manager" where
  "open_effect be st = (if isOpen st then fetchModels be st else st)"

definition setIsOpen :: "bool \<Rightarrow> manager \<Rightarrow> manager" where
  "setIsOpen v st = st\<lparr>isOpen := v\<rparr>"

text \<open>
  A call of \<^verbatim>\<open>onOpenChange\<close> with the render it causes: the effect depends on
  \<^verbatim>\<open>[isOpen]\<close>, so it runs when the flag has changed and not otherwise. The call with
  \<open>True\<close> on a closed panel is the open transition.
\<close>

definition onOpenChange :: "backend \<Rightarrow> bool \<Rightarrow> manager \<Rightarrow> manager" where
  "onOpenChange be v st =
     (if isOpen st = v then st else open_effect be (setIsOpen v st))"

text \<open>The requests an operation added to the ones issued before it.\<close>

definition issued_since :: "manager \<Rightarrow> manager \<Rightarrow> request list" where
  "issued_since before after = drop (length (requests before)) (requests after)"

definition listing_fetches :: "request list \<Rightarrow> nat" where
  "listing_fetches rs = length (filter (\<lambda>r. r = models_request) rs)"

section \<open>Size formatting\<close>

text \<open>
  \<^verbatim>\<open>formatFileSize\<close> is applied to the \<^verbatim>\<open>size\<close> of a model descriptor, a byte count:
  a natural number, below \<open>2 ^ 53\<close> so that the double holds it exactly. On such
  numbers the arithmetic of the function is modelled exactly: dividing by a power of 1024
  only changes the exponent of a double, and \<^verbatim>\<open>Math.log\<close> and \<^verbatim>\<open>Math.floor\<close> are taken
  as the real logarithm and floor.
\<close>

definition sizes :: "string list" where
  "sizes = [''B'', ''KB'', ''MB'', ''GB'']"

text \<open>\<^verbatim>\<open>Math.floor(Math.log(n) / Math.log(k))\<close> for a positive integer \<open>n\<close>.\<close>

function math_floor_log :: "nat \<Rightarrow> nat \<Rightarrow> nat" where
  "math_floor_log k n = (if k \<le> 1 \<or> n < k then 0 else Suc (math_floor_log k (n div k)))"
  by pat_completeness auto
termination
  by (relation "measure snd") auto

text \<open>
  \<^verbatim>\<open>(p / q).toFixed(2)\<close>: the number of hundredths nearest to the quotient, the larger
  one when two are equally near.
\<close>

definition toFixed_2 :: "nat \<Rightarrow> nat \<Rightarrow> nat" where
  "toFixed_2 p q = (200 * p + q) div (2 * q)"

definition digit_char :: "nat \<Rightarrow> char" where
  "digit_char d = ''0123456789'' ! d"

function show_nat :: "nat \<Rightarrow> string" where
  "show_nat n = (if n < 10 then [digit_char n] else show_nat (n div 10) @ [digit_char (n mod 10)])"
  by pat_completeness auto
termination
  by (relation "measure id") auto

text \<open>
  \<^verbatim>\<open>parseFloat\<close> of the two-decimal string, converted back to a string by the
  concatenation: the shortest decimal, so trailing zeros of the fraction are dropped.
\<close>

definition parseFloat_toString :: "nat \<Rightarrow> string" where
  "parseFloat_toString h =
     (let whole = h div 100; frac = h mod 100
      in if frac = 0 then show_nat whole
         else if frac mod 10 = 0 then show_nat whole @ ''.'' @ [digit_char (frac div 10)]
         else show_nat whole @ ''.'' @ [digit_char (frac div 10), digit_char (frac mod 10)])"

text \<open>
  \<^verbatim>\<open>sizes[i]\<close> as the concatenation renders it: an index outside the array reads
  \<^verbatim>\<open>undefined\<close>, whose string is \<^verbatim>\<open>undefined\<close>.
\<close>

definition sizes_at :: "nat \<Rightarrow> string" where
  "sizes_at i = (if i < length sizes then sizes ! i else ''undefined'')"

definition unit_index :: "nat \<Rightarrow> nat" where
  "unit_index bytes = math_floor_log 1024 bytes"

definition scaled_text :: "nat \<Rightarrow> string" where
  "scaled_text bytes = parseFloat_toString (toFixed_2 bytes (1024 ^ unit_index bytes))"

definition formatFileSize :: "nat \<Rightarrow> string" where
  "formatFileSize bytes =
     (if bytes = 0 then ''0 B''
      else scaled_text bytes @ '' '' @ sizes_at (unit_index bytes))"

section \<open>Concrete configurations\<close>

text \<open>
  An engine whose \<^verbatim>\<open>Date.parse\<close> knows two ISO timestamps, a config store holding
  three given values, and a store whose \<^verbatim>\<open>getAll\<close> throws.
\<close>

definition example_engine :: engine where
  "example_engine =
     \<lparr>date_parse = (\<lambda>s. if s = ''2025-01-01T00:00:00Z'' then Finite 1735689600000
                         else if s = ''2025-01-02T00:00:00Z'' then Finite 1735776000000
                         else NaN),
      array_toString = (\<lambda>vs. [])\<rparr>"

definition example_flags :: "jsval \<Rightarrow> jsval \<Rightarrow> jsval \<Rightarrow> (string \<rightharpoonup> jsval)" where
  "example_flags s e en = [start_key \<mapsto> s, end_key \<mapsto> e, enabled_key \<mapsto> en]"

definition example_store :: "(string \<rightharpoonup> jsval) \<Rightarrow> ambient" where
  "example_store flags =
     \<lparr>EDGE_CONFIG = Some ''https://edge-config.vercel.com/ecfg_1?token=t'',
      getAll = (\<lambda>keys. Items flags)\<rparr>"

definition failing_store :: ambient where
  "failing_store =
     \<lparr>EDGE_CONFIG = Some ''https://edge-config.vercel.com/ecfg_1?token=t'',
      getAll = (\<lambda>keys. Throws ''network'')\<rparr>"

text \<open>
  Two status payloads, a model descriptor, and a backend whose status and listing
  endpoints answer as given while its pull and delete endpoints succeed.
\<close>

definition connected :: ServerStatus where
  "connected = \<lparr>status = ''running'', accessible = True, base_url = ''http://localhost:11434''\<rparr>"

definition not_connected :: ServerStatus where
  "not_connected = \<lparr>status = ''stopped'', accessible = False, base_url = ''http://localhost:11434''\<rparr>"

definition example_model :: OllamaModel where
  "example_model =
     \<lparr>model_id = ''ollama/llama3.2'', name = ''llama3.2'', display_name = ''Llama 3.2'',
      model_size = 2019393189, modified_at = ''2025-01-01T00:00:00Z'', digest = ''a80c4f17acd5''\<rparr>"

definition example_backend :: "ServerStatus response \<Rightarrow> OllamaModel list response \<Rightarrow> backend" where
  "example_backend status_answer models_answer =
     \<lparr>status_endpoint = status_answer,
      models_endpoint = models_answer,
      pull_endpoint = (\<lambda>modelName. Response True (Some ''{}'')),
      delete_endpoint = (\<lambda>modelName. Response True (Some ''{}'')),
      onModelAdded = None\<rparr>"

text \<open>
  The recursive equations of the two functions defined with a measure are unfolded by
  hand or on numerals only.
\<close>

declare math_floor_log.simps [simp del]

declare show_nat.simps [simp del]


section \<open>Properties of the maintenance-notice flag\<close>

lemma invalid_date_iff: "isNaN (getTime d) \<longleftrightarrow> d = Invalid_Date"
  by (cases d) simp_all

lemma malformed_or_missing_newDate:
  assumes "malformed_or_missing eng flags k" and "absent_or_string_or_number flags k"
  shows "isNaN (getTime (newDate eng (flag_at flags k)))"
proof (cases "flags k")
  case None
  then show ?thesis by (simp add: flag_at_def)
next
  case (Some v)
  with assms have m: "\<not> well_formed_timestamp eng v"
    and a: "(\<exists>s. v = JStr s) \<or> (\<exists>n. v = JNum n)"
    by (auto simp: malformed_or_missing_def absent_or_string_or_number_def split: jsval.splits)
  from a m have "newDate eng v = Invalid_Date"
    by (auto simp: well_formed_timestamp_def)
  with Some show ?thesis by (simp add: flag_at_def)
qed

text \<open>
  A key the store does not hold reads \<^verbatim>\<open>undefined\<close>, whose date is invalid. A key that
  holds \<^verbatim>\<open>null\<close> or a boolean is present, and \<^verbatim>\<open>new Date\<close> converts the value to a
  number: its date is at the epoch or one millisecond after it, whatever the engine.
\<close>

lemma missing_is_invalid: "flags k = None \<Longrightarrow> newDate eng (flag_at flags k) = Invalid_Date"
  by (simp add: flag_at_def)

lemma null_is_epoch: "newDate eng JNull = Date_ms 0"
  by simp

lemma boolean_is_epoch: "newDate eng (JBool b) = Date_ms (if b then 1 else 0)"
  by simp

lemma truthy_false_iff:
  "\<not> truthy v \<longleftrightarrow>
     v = JUndefined \<or> v = JNull \<or> v = JBool False \<or> v = JNum NaN \<or> v = JNum (Finite 0) \<or> v = JStr []"
  by (cases v rule: truthy.cases) auto

lemma decide_try_falsy:
  "getAll amb [start_key, end_key, enabled_key] = Items flags \<Longrightarrow>
   \<not> truthy (flag_at flags enabled_key) \<Longrightarrow> decide_try eng amb = Inr Disabled"
  by (simp add: decide_try_def)

text \<open>
  C7. Whenever the value fetched for the enabled flag is falsy (\<^verbatim>\<open>undefined\<close>, \<^verbatim>\<open>null\<close>,
  \<^verbatim>\<open>false\<close>, 0, NaN or the empty string), \<^verbatim>\<open>decide\<close> returns the disabled variant,
  whatever the start-time and end-time values are and whatever the engine makes of them.
\<close>

theorem decide_falsy_enabled_disabled:
  assumes "getAll amb [start_key, end_key, enabled_key] = Items flags"
    and "\<not> truthy (flag_at flags enabled_key)"
  shows "decide eng amb = Inr Disabled"
  using assms by (simp add: decide_def decide_try_falsy)

lemma example_getAll:
  "getAll (example_store fl) [start_key, end_key, enabled_key] =
     Items fl"
  by (simp add: example_store_def)

lemma example_flag_at:
  "flag_at (example_flags s e en) start_key = s"
  "flag_at (example_flags s e en) end_key = e"
  "flag_at (example_flags s e en) enabled_key = en"
  by (simp_all add: flag_at_def example_flags_def start_key_def end_key_def enabled_key_def)

theorem decide_falsy_enabled_disabled_witness:
  "getAll (example_store (example_flags (JStr ''2025-01-01T00:00:00Z'') (JStr ''soon'') (JNum (Finite 0))))
      [start_key, end_key, enabled_key]
     = Items (example_flags (JStr ''2025-01-01T00:00:00Z'') (JStr ''soon'') (JNum (Finite 0)))
   \<and> \<not> truthy (flag_at (example_flags (JStr ''2025-01-01T00:00:00Z'') (JStr ''soon'') (JNum (Finite 0))) enabled_key)
   \<and> decide example_engine
        (example_store (example_flags (JStr ''2025-01-01T00:00:00Z'') (JStr ''soon'') (JNum (Finite 0))))
       = Inr Disabled"
proof -
  let ?fl = "example_flags (JStr ''2025-01-01T00:00:00Z'') (JStr ''soon'') (JNum (Finite 0))"
  have g: "getAll (example_store ?fl) [start_key, end_key, enabled_key]
             = Items ?fl"
    by (rule example_getAll)
  have f: "\<not> truthy (flag_at ?fl enabled_key)"
    by (simp add: example_flag_at)
  from decide_falsy_enabled_disabled [OF g f, of example_engine] g f show ?thesis by simp
qed




text \<open>
  The same holds when the key is absent: its value reads \<^verbatim>\<open>undefined\<close>.
\<close>

lemma decide_missing_key:
  assumes "getAll amb [start_key, end_key, enabled_key] = Items flags"
    and "flags start_key = None \<or> flags end_key = None"
  shows "decide eng amb = Inr Disabled"
proof -
  from assms(2) have
    "malformed_or_missing eng flags start_key \<and> absent_or_string_or_number flags start_key \<or>
     malformed_or_missing eng flags end_key \<and> absent_or_string_or_number flags end_key"
    by (auto simp: malformed_or_missing_def absent_or_string_or_number_def)
  then have "isNaN (getTime (newDate eng (flag_at flags start_key))) \<or>
             isNaN (getTime (newDate eng (flag_at flags end_key)))"
    by (blast intro: malformed_or_missing_newDate)
  with assms(1) have "decide_try eng amb = Inr Disabled \<or> (\<exists>c. decide_try eng amb = Inl c)"
    by (auto simp: decide_try_def Let_def)
  then show ?thesis by (auto simp: decide_def)
qed


text \<open>
  C6. \<^verbatim>\<open>decide\<close> never hands a failure to its caller: it always returns a variant, and
  it returns the disabled one whenever its \<^verbatim>\<open>try\<close> block throws, the config source
  is unset, \<^verbatim>\<open>getAll\<close> throws, a key is missing, or a time value is invalid.
\<close>

theorem decide_never_fails:
  "(\<exists>notice. decide eng amb = Inr notice) \<and>
   (decide_try eng amb = Inl cause \<longrightarrow> decide eng amb = Inr Disabled) \<and>
   (env_unset (EDGE_CONFIG amb) \<longrightarrow> decide eng amb = Inr Disabled) \<and>
   (getAll amb [start_key, end_key, enabled_key] = Throws msg \<longrightarrow> decide eng amb = Inr Disabled) \<and>
   (getAll amb [start_key, end_key, enabled_key] = Items flags \<and>
      (flags enabled_key = None \<or> flags start_key = None \<or> flags end_key = None)
    \<longrightarrow> decide eng amb = Inr Disabled) \<and>
   (getAll amb [start_key, end_key, enabled_key] = Items flags \<and>
      (\<not> well_formed (newDate eng (flag_at flags start_key)) \<or>
       \<not> well_formed (newDate eng (flag_at flags end_key)))
    \<longrightarrow> decide eng amb = Inr Disabled)"
proof (intro conjI impI)
  show "\<exists>notice. decide eng amb = Inr notice"
    by (simp add: decide_def split: sum.splits)
next
  assume "decide_try eng amb = Inl cause"
  then show "decide eng amb = Inr Disabled" by (simp add: decide_def)
next
  assume "env_unset (EDGE_CONFIG amb)"
  then show "decide eng amb = Inr Disabled" by (simp add: decide_def decide_try_def)
next
  assume "getAll amb [start_key, end_key, enabled_key] = Throws msg"
  then show "decide eng amb = Inr Disabled" by (simp add: decide_def decide_try_def)
next
  assume h: "getAll amb [start_key, end_key, enabled_key] = Items flags \<and>
      (flags enabled_key = None \<or> flags start_key = None \<or> flags end_key = None)"
  then have "\<not> truthy (flag_at flags enabled_key) \<or>
             isNaN (getTime (newDate eng (flag_at flags start_key))) \<or>
             isNaN (getTime (newDate eng (flag_at flags end_key)))"
    by (auto simp: flag_at_def)
  with h show "decide eng amb = Inr Disabled"
    by (auto simp: decide_def decide_try_def Let_def)
next
  assume h: "getAll amb [start_key, end_key, enabled_key] = Items flags \<and>
      (\<not> well_formed (newDate eng (flag_at flags start_key)) \<or>
       \<not> well_formed (newDate eng (flag_at flags end_key)))"
  then show "decide eng amb = Inr Disabled"
    by (auto simp: decide_def decide_try_def well_formed_def Let_def)
qed

theorem decide_never_fails_witness:
  "getAll failing_store [start_key, end_key, enabled_key] = Throws ''network''
   \<and> decide_try example_engine failing_store = Inl (Store_Failure ''network'')
   \<and> decide example_engine failing_store = Inr Disabled"
proof -
  have g: "getAll failing_store [start_key, end_key, enabled_key] = Throws ''network''"
    by (simp add: failing_store_def)
  have t: "decide_try example_engine failing_store = Inl (Store_Failure ''network'')"
    by (simp add: decide_try_def failing_store_def env_unset_def)
  from decide_never_fails [of example_engine failing_store "Store_Failure ''network''" "''network''"] g t
  show ?thesis by blast
qed

section \<open>Properties of the auth-change handler\<close>

text \<open>
  C9. A notification tagged \<^verbatim>\<open>SIGNED_IN\<close> whose session carries a user adds exactly one
  call of the provisioning routine, with the id and the creation timestamp of that user.
\<close>

theorem signed_in_installs_once:
  assumes "newSession = Some s" and "session_user s = Some u"
  shows "install_calls (onAuthStateChange seen SIGNED_IN newSession st)
           = install_calls st @ [(user_id u, created_at u)]"
  using assms
  by (simp add: onAuthStateChange_def user_of_def checkAndInstallSunaAgent_def Let_def)

theorem signed_in_installs_once_witness:
  "install_calls
     (onAuthStateChange True SIGNED_IN
        (Some \<lparr>session_user = Some \<lparr>user_id = ''u-1'', created_at = ''2025-01-01T00:00:00Z''\<rparr>,
               expires_at = Some 1735693200\<rparr>)
        \<lparr>session = None, user = None, isLoading = True, install_calls = []\<rparr>)
   = [(''u-1'', ''2025-01-01T00:00:00Z'')]"
  using signed_in_installs_once
    [of "Some \<lparr>session_user = Some \<lparr>user_id = ''u-1'', created_at = ''2025-01-01T00:00:00Z''\<rparr>,
               expires_at = Some 1735693200\<rparr>"
        "\<lparr>session_user = Some \<lparr>user_id = ''u-1'', created_at = ''2025-01-01T00:00:00Z''\<rparr>,
               expires_at = Some 1735693200\<rparr>"
        "\<lparr>user_id = ''u-1'', created_at = ''2025-01-01T00:00:00Z''\<rparr>"
        True "\<lparr>session = None, user = None, isLoading = True, install_calls = []\<rparr>"]
  by simp

lemma other_events_install_nothing:
  "event \<noteq> SIGNED_IN \<or> user_of newSession = None \<Longrightarrow>
   install_calls (onAuthStateChange seen event newSession st) = install_calls st"
  by (cases event)
     (auto simp: onAuthStateChange_def checkAndInstallSunaAgent_def Let_def split: option.splits)

lemma onAuthStateChange_mirrors:
  "session (onAuthStateChange seen event newSession st) = newSession \<and>
   user (onAuthStateChange seen event newSession st) = user_of newSession"
  by (cases event)
     (auto simp: onAuthStateChange_def checkAndInstallSunaAgent_def Let_def split: option.splits)

section \<open>Properties of the model-manager panel\<close>

lemma fetchServerStatus_requests:
  "requests (snd (fetchServerStatus be st)) = requests st @ [status_request]"
  by (simp add: fetchServerStatus_def fetchServerStatus_try_def issue_def console_error_def
      Let_def split: response.splits option.splits)

lemma fetchServerStatus_models:
  "models (snd (fetchServerStatus be st)) = models st"
  by (simp add: fetchServerStatus_def fetchServerStatus_try_def issue_def console_error_def
      Let_def split: response.splits option.splits)

lemma fetchServerStatus_report:
  "fst (fetchServerStatus be st) =
     (case status_endpoint be of
        Network_Error \<Rightarrow> False
      | Response is_ok js \<Rightarrow> is_ok \<and> (case js of None \<Rightarrow> False | Some s \<Rightarrow> accessible s))"
  by (simp add: fetchServerStatus_def fetchServerStatus_try_def Let_def
      split: response.splits option.splits)

lemma fetchServerStatus_report_any: "fst (fetchServerStatus be st) = fst (fetchServerStatus be st')"
  by (simp add: fetchServerStatus_report)

lemma fetchModels_requests:
  "requests (fetchModels be st) =
     requests st @ status_request # (if fst (fetchServerStatus be st) then [models_request] else [])"
proof -
  obtain a st1 where f: "fetchServerStatus be (st\<lparr>loading := True\<rparr>) = (a, st1)"
    by (cases "fetchServerStatus be (st\<lparr>loading := True\<rparr>)")
  have r: "requests st1 = requests st @ [status_request]"
    using fetchServerStatus_requests [of be "st\<lparr>loading := True\<rparr>"] f by simp
  have a: "a = fst (fetchServerStatus be st)"
    using fetchServerStatus_report_any [of be "st\<lparr>loading := True\<rparr>" st] f by simp
  show ?thesis
    unfolding a [symmetric]
    by (simp add: fetchModels_def fetchModels_try_def f r issue_def console_error_def Let_def
        split: response.splits option.splits)
qed

lemma fetchModels_unreachable:
  assumes "\<not> fst (fetchServerStatus be st)"
  shows "models (fetchModels be st) = []"
proof -
  obtain a st1 where f: "fetchServerStatus be (st\<lparr>loading := True\<rparr>) = (a, st1)"
    by (cases "fetchServerStatus be (st\<lparr>loading := True\<rparr>)")
  have "a = fst (fetchServerStatus be st)"
    using fetchServerStatus_report_any [of be "st\<lparr>loading := True\<rparr>" st] f by simp
  with assms have "\<not> a" by simp
  then show ?thesis
    by (simp add: fetchModels_def fetchModels_try_def f Let_def)
qed

lemma issued_since_append: "requests after = requests before @ rs \<Longrightarrow> issued_since before after = rs"
  by (simp add: issued_since_def)

text \<open>
  C2. When the panel is opened and the status fetch reports unreachable (the payload says
  so, the response is not a success, its body does not decode, or the request fails), the
  only request issued is the one to the status endpoint, so the listing endpoint is not
  called, and the displayed model list is empty afterwards.
\<close>

theorem open_unreachable_skips_listing:
  assumes "\<not> isOpen st" and "\<not> fst (fetchServerStatus be st)"
  shows "models (onOpenChange be True st) = [] \<and>
         issued_since st (onOpenChange be True st) = [status_request] \<and>
         listing_fetches (issued_since st (onOpenChange be True st)) = 0"
proof -
  let ?st = "setIsOpen True st"
  have o: "onOpenChange be True st = fetchModels be ?st"
    using assms(1) by (simp add: onOpenChange_def open_effect_def setIsOpen_def)
  have u: "\<not> fst (fetchServerStatus be ?st)"
    using assms(2) fetchServerStatus_report_any [of be ?st st] by simp
  have m: "models (fetchModels be ?st) = []"
    using u by (rule fetchModels_unreachable)
  have "requests (fetchModels be ?st) = requests st @ [status_request]"
    using u by (simp add: fetchModels_requests setIsOpen_def)
  then have i: "issued_since st (fetchModels be ?st) = [status_request]"
    by (rule issued_since_append)
  have "status_request \<noteq> models_request"
    by (simp add: status_request_def models_request_def)
  with m i o show ?thesis
    by (simp add: listing_fetches_def)
qed

theorem open_unreachable_skips_listing_witness:
  "\<not> isOpen (initial_manager\<lparr>models := [example_model]\<rparr>)
   \<and> \<not> fst (fetchServerStatus (example_backend (Response True (Some not_connected))
                               (Response True (Some [example_model])))
            (initial_manager\<lparr>models := [example_model]\<rparr>))
   \<and> models (onOpenChange (example_backend (Response True (Some not_connected))
                                (Response True (Some [example_model])))
               True (initial_manager\<lparr>models := [example_model]\<rparr>)) = []
   \<and> issued_since (initial_manager\<lparr>models := [example_model]\<rparr>)
        (onOpenChange (example_backend (Response True (Some not_connected))
                              (Response True (Some [example_model])))
               True (initial_manager\<lparr>models := [example_model]\<rparr>)) = [status_request]"
proof -
  let ?be = "example_backend (Response True (Some not_connected)) (Response True (Some [example_model]))"
  let ?st = "initial_manager\<lparr>models := [example_model]\<rparr>"
  have c: "\<not> isOpen ?st"
    by (simp add: initial_manager_def)
  have u: "\<not> fst (fetchServerStatus ?be ?st)"
    by (simp add: fetchServerStatus_report example_backend_def not_connected_def)
  from open_unreachable_skips_listing [OF c u] c u show ?thesis by simp
qed

lemma closed_panel_no_requests:
  "requests (onOpenChange be False st) = requests st"
  by (simp add: onOpenChange_def open_effect_def setIsOpen_def)

lemma open_reachable_lists:
  assumes "\<not> isOpen st" and "fst (fetchServerStatus be st)"
  shows "issued_since st (onOpenChange be True st) = [status_request, models_request]"
proof -
  have "onOpenChange be True st = fetchModels be (setIsOpen True st)"
    using assms(1) by (simp add: onOpenChange_def open_effect_def setIsOpen_def)
  moreover have "fst (fetchServerStatus be (setIsOpen True st))"
    using assms(2) fetchServerStatus_report_any [of be "setIsOpen True st" st] by simp
  ultimately have "requests (onOpenChange be True st) =
      requests st @ [status_request, models_request]"
    by (simp add: fetchModels_requests setIsOpen_def)
  then show ?thesis by (rule issued_since_append)
qed

text \<open>
  C3. However a pull goes (the POST succeeds, is answered with a non-success status,
  fails in transport, or succeeds and the listing refresh then fails, or the callback
  throws), the marker \<^verbatim>\<open>pullingModel\<close> is null when \<^verbatim>\<open>pullModel\<close> has completed.
\<close>

theorem pullModel_clears_marker:
  "pullingModel (pullModel be modelName st) = None"
  by (simp add: pullModel_def Let_def split: prod.splits completion.splits)

lemma deleteModel_clears_marker:
  "deletingModel (deleteModel be modelName st) = None"
  by (simp add: deleteModel_def Let_def split: prod.splits completion.splits)

lemma pullModel_listing_failure:
  assumes "pull_endpoint be modelName = Response True js"
    and "status_endpoint be = Response True (Some s)" and "accessible s"
    and "models_endpoint be = Network_Error"
  shows "pullingModel (pullModel be modelName st) = None \<and> models (pullModel be modelName st) = []"
  using assms
  by (simp add: pullModel_def pullModel_try_def fetchModels_def fetchModels_try_def
      fetchServerStatus_def fetchServerStatus_try_def issue_def console_error_def Let_def
      split: option.splits callback_outcome.splits)

lemma requests_issue: "requests (issue r st) = requests st @ [r]"
  by (simp add: issue_def)

lemma requests_console_error: "requests (console_error msg st) = requests st"
  by (simp add: console_error_def)

lemma deleteModel_requests:
  "requests (deleteModel be modelName st) =
     requests st @ delete_request modelName #
       (case delete_endpoint be modelName of
          Network_Error \<Rightarrow> []
        | Response is_ok js \<Rightarrow>
            if is_ok
            then status_request # (if fst (fetchServerStatus be st) then [models_request] else [])
            else [])"
proof -
  let ?st1 = "issue (delete_request modelName) (st\<lparr>deletingModel := Some modelName\<rparr>)"
  have r: "requests (fetchModels be ?st1) =
      requests st @ delete_request modelName # status_request #
        (if fst (fetchServerStatus be st) then [models_request] else [])"
    using fetchServerStatus_report_any [of be ?st1 st]
    by (simp add: fetchModels_requests requests_issue)
  show ?thesis
    by (simp add: deleteModel_def deleteModel_try_def Let_def r requests_issue
        requests_console_error split: response.splits option.splits)
qed

text \<open>
  C4, as the code has it. After a DELETE that succeeds, \<^verbatim>\<open>fetchModels\<close> runs once: one
  GET to the status endpoint follows the DELETE, and one GET to the models endpoint
  follows that exactly when the status fetch reports reachable; when it does not, no
  GET to the models endpoint is issued.
\<close>

theorem delete_success_refresh:
  assumes "delete_endpoint be modelName = Response True js"
  shows "issued_since st (deleteModel be modelName st) =
           delete_request modelName # status_request #
             (if fst (fetchServerStatus be st) then [models_request] else [])
         \<and> listing_fetches (issued_since st (deleteModel be modelName st)) =
             (if fst (fetchServerStatus be st) then 1 else 0)"
proof -
  have "requests (deleteModel be modelName st) =
      requests st @ delete_request modelName # status_request #
        (if fst (fetchServerStatus be st) then [models_request] else [])"
    using assms by (simp add: deleteModel_requests)
  then have i: "issued_since st (deleteModel be modelName st) =
      delete_request modelName # status_request #
        (if fst (fetchServerStatus be st) then [models_request] else [])"
    by (rule issued_since_append)
  have "delete_request modelName \<noteq> models_request" "status_request \<noteq> models_request"
    by (simp_all add: delete_request_def status_request_def models_request_def)
  with i show ?thesis by (simp add: listing_fetches_def)
qed

theorem delete_success_refresh_witness:
  "delete_endpoint (example_backend (Response True (Some connected)) (Response True (Some []))) ''llama3.2''
     = Response True (Some ''{}'')
   \<and> issued_since (initial_manager\<lparr>models := [example_model]\<rparr>)
       (deleteModel (example_backend (Response True (Some connected)) (Response True (Some [])))
          ''llama3.2'' (initial_manager\<lparr>models := [example_model]\<rparr>))
     = [delete_request ''llama3.2'', status_request, models_request]
   \<and> listing_fetches (issued_since (initial_manager\<lparr>models := [example_model]\<rparr>)
       (deleteModel (example_backend (Response True (Some connected)) (Response True (Some [])))
          ''llama3.2'' (initial_manager\<lparr>models := [example_model]\<rparr>))) = 1"
proof -
  let ?be = "example_backend (Response True (Some connected)) (Response True (Some []))"
  have d: "delete_endpoint ?be ''llama3.2'' = Response True (Some ''{}'')"
    by (simp add: example_backend_def)
  have a: "fst (fetchServerStatus ?be (initial_manager\<lparr>models := [example_model]\<rparr>))"
    by (simp add: fetchServerStatus_report example_backend_def connected_def)
  have r: "issued_since (initial_manager\<lparr>models := [example_model]\<rparr>)
              (deleteModel ?be ''llama3.2'' (initial_manager\<lparr>models := [example_model]\<rparr>))
             = [delete_request ''llama3.2'', status_request, models_request]
           \<and> listing_fetches (issued_since (initial_manager\<lparr>models := [example_model]\<rparr>)
              (deleteModel ?be ''llama3.2'' (initial_manager\<lparr>models := [example_model]\<rparr>))) = 1"
    using delete_success_refresh [OF d, of "initial_manager\<lparr>models := [example_model]\<rparr>"]
    by (simp (no_asm_use) only: a if_True)
  from d r show ?thesis by blast
qed

text \<open>
  C4 as stated fails: a DELETE succeeds, the status fetch reports unreachable, and no
  GET to the models endpoint follows.
\<close>

theorem delete_success_no_listing_counterexample:
  "delete_endpoint (example_backend (Response True (Some not_connected)) (Response True (Some [])))
       ''llama3.2'' = Response True (Some ''{}'')
   \<and> listing_fetches (issued_since (initial_manager\<lparr>models := [example_model]\<rparr>)
       (deleteModel (example_backend (Response True (Some not_connected)) (Response True (Some [])))
          ''llama3.2'' (initial_manager\<lparr>models := [example_model]\<rparr>))) \<noteq> 1"
  by (simp add: deleteModel_requests issued_since_def listing_fetches_def fetchServerStatus_report
      example_backend_def not_connected_def delete_request_def status_request_def
      models_request_def)

text \<open>
  C5, as the code has it. A status fetch answered with a success response and a payload
  replaces the held status with that payload, whatever was held before, and reports the
  payload's reachability. Any other outcome (a non-success response, a body that does
  not decode, a transport failure) reports unreachable and leaves the held status as it
  was.
\<close>

theorem fetchServerStatus_held_status:
  "(status_endpoint be = Response True (Some s) \<longrightarrow>
      fst (fetchServerStatus be st) = accessible s \<and>
      serverStatus (snd (fetchServerStatus be st)) = Some s) \<and>
   ((\<forall>s. status_endpoint be \<noteq> Response True (Some s)) \<longrightarrow>
      fst (fetchServerStatus be st) = False \<and>
      serverStatus (snd (fetchServerStatus be st)) = serverStatus st)"
  by (auto simp: fetchServerStatus_def fetchServerStatus_try_def issue_def console_error_def
      Let_def split: response.splits option.splits)

theorem fetchServerStatus_held_status_witness:
  "status_endpoint (example_backend (Response True (Some connected)) Network_Error)
     = Response True (Some connected)
   \<and> fst (fetchServerStatus (example_backend (Response True (Some connected)) Network_Error)
            (initial_manager\<lparr>serverStatus := Some not_connected\<rparr>)) = accessible connected
   \<and> serverStatus (snd (fetchServerStatus (example_backend (Response True (Some connected)) Network_Error)
            (initial_manager\<lparr>serverStatus := Some not_connected\<rparr>))) = Some connected
   \<and> fst (fetchServerStatus (example_backend (Response False None) Network_Error)
            (initial_manager\<lparr>serverStatus := Some not_connected\<rparr>)) = False
   \<and> serverStatus (snd (fetchServerStatus (example_backend (Response False None) Network_Error)
            (initial_manager\<lparr>serverStatus := Some not_connected\<rparr>))) = Some not_connected"
proof -
  let ?st = "initial_manager\<lparr>serverStatus := Some not_connected\<rparr>"
  have e: "status_endpoint (example_backend (Response True (Some connected)) Network_Error)
             = Response True (Some connected)"
    by (simp add: example_backend_def)
  have n: "\<forall>s. status_endpoint (example_backend (Response False None) Network_Error)
             \<noteq> Response True (Some s)"
    by (simp add: example_backend_def)
  from fetchServerStatus_held_status
         [of "example_backend (Response True (Some connected)) Network_Error" connected ?st]
       fetchServerStatus_held_status
         [of "example_backend (Response False None) Network_Error" connected ?st] e n
  show ?thesis by simp
qed

text \<open>
  C5 as stated fails: a poll that succeeds and says reachable, then a poll that fails in
  transport. The second poll reports unreachable, and the held status is still the
  first poll's payload, which says reachable.
\<close>

theorem stale_status_counterexample:
  "fst (fetchServerStatus (example_backend Network_Error Network_Error)
          (snd (fetchServerStatus (example_backend (Response True (Some connected)) Network_Error)
                  initial_manager))) = False
   \<and> serverStatus
        (snd (fetchServerStatus (example_backend Network_Error Network_Error)
          (snd (fetchServerStatus (example_backend (Response True (Some connected)) Network_Error)
                  initial_manager)))) = Some connected
   \<and> accessible connected"
  by (simp add: fetchServerStatus_def fetchServerStatus_try_def issue_def console_error_def
      example_backend_def connected_def initial_manager_def Let_def)

section \<open>Properties of the size formatting\<close>

text \<open>
  The recursion computes the floor of the logarithm: \<open>k ^ i \<le> n < k ^ (i + 1)\<close>, which
  is \<^verbatim>\<open>Math.floor(Math.log(n) / Math.log(k))\<close> over the reals.
\<close>

lemma math_floor_log_bounds:
  "1 < k \<Longrightarrow> 0 < n \<Longrightarrow> k ^ math_floor_log k n \<le> n \<and> n < k ^ Suc (math_floor_log k n)"
proof (induction k n rule: math_floor_log.induct)
  case (1 k n)
  show ?case
  proof (cases "n < k")
    case True
    then have "math_floor_log k n = 0"
      by (subst math_floor_log.simps) simp
    with True \<open>0 < n\<close> show ?thesis by simp
  next
    case False
    from False \<open>1 < k\<close> have nk: "\<not> (k \<le> 1 \<or> n < k)" by simp
    from False \<open>1 < k\<close> have pos: "0 < n div k" by (simp add: div_greater_zero_iff)
    have eq: "math_floor_log k n = Suc (math_floor_log k (n div k))"
      using nk by (subst math_floor_log.simps) simp
    from "1.IH" [OF nk \<open>1 < k\<close> pos]
    have lo: "k ^ math_floor_log k (n div k) \<le> n div k"
      and hi: "n div k < k ^ Suc (math_floor_log k (n div k))" by blast+
    have "k * k ^ math_floor_log k (n div k) \<le> k * (n div k)"
      using lo by (rule mult_le_mono2)
    also have "\<dots> \<le> n" by simp
    finally have A: "k ^ math_floor_log k n \<le> n" unfolding eq by simp
    have k0: "0 < k" using \<open>1 < k\<close> by simp
    have "Suc (n div k) \<le> k ^ Suc (math_floor_log k (n div k))" using hi by simp
    then have "k * Suc (n div k) \<le> k * k ^ Suc (math_floor_log k (n div k))"
      by (rule mult_le_mono2)
    moreover have "n < k * Suc (n div k)"
      using dividend_less_times_div [OF k0, of n] by simp
    ultimately have "n < k * k ^ Suc (math_floor_log k (n div k))" by (rule less_le_trans [rotated])
    then have B: "n < k ^ Suc (math_floor_log k n)" unfolding eq by simp
    from A B show ?thesis by blast
  qed
qed

lemma math_floor_log_real:
  assumes "2 \<le> k" and "0 < n"
  shows "int (math_floor_log k n) = \<lfloor>ln (real n) / ln (real k)\<rfloor>"
proof -
  from assms math_floor_log_bounds [of k n]
  have "k ^ math_floor_log k n \<le> n" and "n < k ^ (math_floor_log k n + 1)" by simp_all
  from floor_log_nat_eq_if [OF this assms(1)] show ?thesis by (simp add: log_def)
qed

lemma unit_index_class:
  assumes "1024 ^ i \<le> b" and "b < 1024 ^ Suc i"
  shows "unit_index b = i"
proof -
  have pos: "0 < b" using assms(1) by (cases "b = 0") auto
  from math_floor_log_bounds [of 1024 b] pos
  have lo: "(1024::nat) ^ unit_index b \<le> b" and hi: "b < 1024 ^ Suc (unit_index b)"
    by (simp_all add: unit_index_def)
  from lo assms(2) have "(1024::nat) ^ unit_index b < 1024 ^ Suc i" by (rule le_less_trans)
  then have a: "unit_index b < Suc i" by (rule power_less_imp_less_exp [rotated]) simp
  from assms(1) hi have "(1024::nat) ^ i < 1024 ^ Suc (unit_index b)" by (rule le_less_trans)
  then have "i < Suc (unit_index b)" by (rule power_less_imp_less_exp [rotated]) simp
  with a show ?thesis by simp
qed

lemma unit_index_below:
  assumes "1 \<le> b" and "b < 1024 ^ m"
  shows "unit_index b < m"
proof -
  from math_floor_log_bounds [of 1024 b] assms(1)
  have "(1024::nat) ^ unit_index b \<le> b" by (simp add: unit_index_def)
  from this assms(2) have "(1024::nat) ^ unit_index b < 1024 ^ m" by (rule le_less_trans)
  then show ?thesis by (rule power_less_imp_less_exp [rotated]) simp
qed

lemma unit_index_above:
  assumes "1024 ^ m \<le> b"
  shows "m \<le> unit_index b"
proof -
  have pos: "0 < b" using assms by (cases "b = 0") auto
  from math_floor_log_bounds [of 1024 b] pos
  have "b < 1024 ^ Suc (unit_index b)" by (simp add: unit_index_def)
  with assms have "(1024::nat) ^ m < 1024 ^ Suc (unit_index b)" by (rule le_less_trans)
  then have "m < Suc (unit_index b)" by (rule power_less_imp_less_exp [rotated]) simp
  then show ?thesis by simp
qed

text \<open>Two-decimal rounding: the hundredths are within half a hundredth of the quotient.\<close>

lemma toFixed_2_nearest:
  assumes "0 < q"
  shows "2 * q * toFixed_2 p q \<le> 200 * p + q \<and> 200 * p + q < 2 * q * (toFixed_2 p q + 1)"
proof -
  have "2 * q * ((200 * p + q) div (2 * q)) \<le> 200 * p + q" by simp
  moreover have "200 * p + q < 2 * q * Suc ((200 * p + q) div (2 * q))"
  proof -
    have "0 < 2 * q" using assms by simp
    from dividend_less_times_div [OF this, of "200 * p + q"] show ?thesis by simp
  qed
  ultimately show ?thesis by (simp add: toFixed_2_def)
qed

lemma sizes_at_in_table: "i < length sizes \<Longrightarrow> sizes_at i = sizes ! i \<and> sizes ! i \<in> set sizes"
  by (simp add: sizes_at_def)

lemma sizes_at_outside: "length sizes \<le> i \<Longrightarrow> sizes_at i = ''undefined''"
  by (simp add: sizes_at_def)

lemma undefined_no_unit: "u \<in> set sizes \<Longrightarrow> \<not> suffix u (xs @ '' undefined'')"
proof
  assume u: "u \<in> set sizes" and s: "suffix u (xs @ '' undefined'')"
  from u have "u \<noteq> []" and "last u = CHR ''B''" by (auto simp: sizes_def)
  moreover from s obtain zs where "xs @ '' undefined'' = zs @ u" by (auto simp: suffix_def)
  then have "last (xs @ '' undefined'') = last (zs @ u)" by simp
  ultimately show False by simp
qed

text \<open>
  C10. The unit lookup is in bounds only below \<open>1024 ^ 4\<close>. For a byte count \<open>b\<close> with
  \<open>1 \<le> b < 1024 ^ 4\<close> the unit index is at most 3, inside the four-entry table, and the
  result is the scaled number, a space, and the unit \<^verbatim>\<open>B\<close>, \<^verbatim>\<open>KB\<close>, \<^verbatim>\<open>MB\<close> or \<^verbatim>\<open>GB\<close> at
  that index. For \<open>b \<ge> 1024 ^ 4\<close> the index is outside the table, the result ends in the
  word \<^verbatim>\<open>undefined\<close>, and no unit of the table ends it.
\<close>

theorem formatFileSize_unit_lookup:
  "(1 \<le> b \<and> b < 1024 ^ 4 \<longrightarrow>
      unit_index b \<le> 3 \<and> unit_index b < length sizes \<and>
      formatFileSize b = scaled_text b @ '' '' @ sizes ! unit_index b \<and>
      sizes ! unit_index b \<in> {''B'', ''KB'', ''MB'', ''GB''}) \<and>
   (1024 ^ 4 \<le> b \<longrightarrow>
      length sizes \<le> unit_index b \<and>
      formatFileSize b = scaled_text b @ '' undefined'' \<and>
      (\<forall>u \<in> set sizes. \<not> suffix u (formatFileSize b)))"
proof (intro conjI impI)
  assume h: "1 \<le> b \<and> b < 1024 ^ 4"
  then have i: "unit_index b < 4" by (intro unit_index_below) simp_all
  then show "unit_index b \<le> 3" by simp
  from i show l: "unit_index b < length sizes" by (simp add: sizes_def)
  from h l show "formatFileSize b = scaled_text b @ '' '' @ sizes ! unit_index b"
    by (simp add: formatFileSize_def sizes_at_def)
  from sizes_at_in_table [OF l] show "sizes ! unit_index b \<in> {''B'', ''KB'', ''MB'', ''GB''}"
    by (simp add: sizes_def)
next
  assume h: "1024 ^ 4 \<le> b"
  then have "4 \<le> unit_index b" by (rule unit_index_above)
  then show l: "length sizes \<le> unit_index b" by (simp add: sizes_def)
  have "b \<noteq> 0" using h by auto
  with l show e: "formatFileSize b = scaled_text b @ '' undefined''"
    by (simp add: formatFileSize_def sizes_at_outside)
  show "\<forall>u \<in> set sizes. \<not> suffix u (formatFileSize b)"
  proof
    fix u
    assume "u \<in> set sizes"
    then show "\<not> suffix u (formatFileSize b)"
      unfolding e by (rule undefined_no_unit)
  qed
qed

theorem formatFileSize_unit_lookup_witness:
  "(1::nat) \<le> 1536 \<and> (1536::nat) < 1024 ^ 4 \<and> unit_index 1536 \<le> 3 \<and>
   formatFileSize 1536 = scaled_text 1536 @ '' '' @ sizes ! unit_index 1536 \<and>
   (1024::nat) ^ 4 \<le> 2199023255552 \<and> length sizes \<le> unit_index 2199023255552 \<and>
   formatFileSize 2199023255552 = scaled_text 2199023255552 @ '' undefined''"
  using formatFileSize_unit_lookup [of 1536] formatFileSize_unit_lookup [of 2199023255552]
  by (simp add: sizes_def)

text \<open>The three sizes the specification lists, a tie of the rounding, and one gibibyte.\<close>

lemma formatFileSize_examples:
  "formatFileSize 0 = ''0 B''"
  "formatFileSize 1536 = ''1.5 KB''"
  "formatFileSize 1048576 = ''1 MB''"
  "formatFileSize 1152 = ''1.13 KB''"
  "formatFileSize 1073741824 = ''1 GB''"
  by (simp_all add: formatFileSize_def scaled_text_def unit_index_def toFixed_2_def
      parseFloat_toString_def sizes_at_def sizes_def digit_char_def
      math_floor_log.simps show_nat.simps)

text \<open>
  C8 says that every positive byte count is given one of the unit classes \<^verbatim>\<open>B\<close>, \<^verbatim>\<open>KB\<close>,
  \<^verbatim>\<open>MB\<close>, \<^verbatim>\<open>GB\<close>. At one tebibyte, \<open>1024 ^ 4 = 1099511627776\<close> bytes, the index 4
  is past the end of the table and \<^verbatim>\<open>formatFileSize\<close> returns the text \<^verbatim>\<open>1 undefined\<close>.
\<close>

theorem formatFileSize_tebibyte:
  "formatFileSize 1099511627776 = ''1 undefined''"
  by (simp add: formatFileSize_def scaled_text_def unit_index_def toFixed_2_def
      parseFloat_toString_def sizes_at_def sizes_def digit_char_def
      math_floor_log.simps show_nat.simps)

end
